theory Spec2Isabelle
  imports Complex_Main
begin

section \<open>Python values used by \<^verbatim>\<open>scripts/fetch_aurora_data.py\<close>\<close>

text \<open>
  Python floats are modelled by exact real numbers: every arithmetic operation of the
  script is taken without floating-point error, and NaN and the infinities are left
  out.  Python integers that meet floats in comparisons are embedded in the same type.
\<close>

text \<open>The exception classes that the script's library calls can raise.  All of them
  are subclasses of \<^verbatim>\<open>Exception\<close>; \<^verbatim>\<open>HTTPError\<close> is a subclass of
  \<^verbatim>\<open>URLError\<close>.\<close>

datatype py_exn =
    URLError | HTTPError | JSONDecodeError | UnicodeDecodeError | TimeoutError
  | HTTPException | TypeError | ValueError | IndexError | KeyError | AttributeError

text \<open>What \<^verbatim>\<open>json.loads\<close> returns.  \<open>JObj\<close> lists the items of the loaded dict
  (one item per key).\<close>

datatype json =
    JNull | JBool bool | JNum real | JStr string | JArr "json list"
  | JObj "(string \<times> json) list"

text \<open>\<^verbatim>\<open>float(v)\<close>.  The conversion of a string is a parameter \<open>sf\<close>: it gives the
  number for the strings that \<^verbatim>\<open>float\<close> accepts and \<open>None\<close> where it raises
  \<^verbatim>\<open>ValueError\<close>.\<close>

fun py_float :: "(string \<Rightarrow> real option) \<Rightarrow> json \<Rightarrow> py_exn + real" where
  "py_float sf (JNum r) = Inr r"
| "py_float sf (JBool b) = Inr (if b then 1 else 0)"
| "py_float sf (JStr s) = (case sf s of Some r \<Rightarrow> Inr r | None \<Rightarrow> Inl ValueError)"
| "py_float sf JNull = Inl TypeError"
| "py_float sf (JArr xs) = Inl TypeError"
| "py_float sf (JObj kvs) = Inl TypeError"

text \<open>\<^verbatim>\<open>v[i]\<close> for a non-negative integer \<open>i\<close>.\<close>

fun py_getitem :: "json \<Rightarrow> nat \<Rightarrow> py_exn + json" where
  "py_getitem (JArr xs) i = (if i < length xs then Inr (xs ! i) else Inl IndexError)"
| "py_getitem (JStr s) i = (if i < length s then Inr (JStr [s ! i]) else Inl IndexError)"
| "py_getitem (JObj kvs) i = Inl KeyError"
| "py_getitem JNull i = Inl TypeError"
| "py_getitem (JBool b) i = Inl TypeError"
| "py_getitem (JNum r) i = Inl TypeError"

text \<open>\<^verbatim>\<open>len(v)\<close>.\<close>

fun py_len :: "json \<Rightarrow> py_exn + nat" where
  "py_len (JArr xs) = Inr (length xs)"
| "py_len (JStr s) = Inr (length s)"
| "py_len (JObj kvs) = Inr (length kvs)"
| "py_len JNull = Inl TypeError"
| "py_len (JBool b) = Inl TypeError"
| "py_len (JNum r) = Inl TypeError"

text \<open>The elements a \<^verbatim>\<open>for\<close> loop over \<open>v\<close> visits.\<close>

fun py_iter :: "json \<Rightarrow> py_exn + json list" where
  "py_iter (JArr xs) = Inr xs"
| "py_iter (JStr s) = Inr (map (\<lambda>c. JStr [c]) s)"
| "py_iter (JObj kvs) = Inr (map (\<lambda>kv. JStr (fst kv)) kvs)"
| "py_iter JNull = Inl TypeError"
| "py_iter (JBool b) = Inl TypeError"
| "py_iter (JNum r) = Inl TypeError"

text \<open>\<^verbatim>\<open>v[1:]\<close>.\<close>

fun py_slice_from1 :: "json \<Rightarrow> py_exn + json" where
  "py_slice_from1 (JArr xs) = Inr (JArr (drop 1 xs))"
| "py_slice_from1 (JStr s) = Inr (JStr (drop 1 s))"
| "py_slice_from1 (JObj kvs) = Inl TypeError"
| "py_slice_from1 JNull = Inl TypeError"
| "py_slice_from1 (JBool b) = Inl TypeError"
| "py_slice_from1 (JNum r) = Inl TypeError"

text \<open>\<^verbatim>\<open>v.get(k, d)\<close>: only a dict has the method.\<close>

fun py_get :: "json \<Rightarrow> string \<Rightarrow> json \<Rightarrow> py_exn + json" where
  "py_get (JObj kvs) k d = Inr (case map_of kvs k of Some v \<Rightarrow> v | None \<Rightarrow> d)"
| "py_get JNull k d = Inl AttributeError"
| "py_get (JBool b) k d = Inl AttributeError"
| "py_get (JNum r) k d = Inl AttributeError"
| "py_get (JStr s) k d = Inl AttributeError"
| "py_get (JArr xs) k d = Inl AttributeError"

text \<open>The truth value of \<open>v\<close> in a condition.\<close>

fun py_truthy :: "json \<Rightarrow> bool" where
  "py_truthy JNull = False"
| "py_truthy (JBool b) = b"
| "py_truthy (JNum r) = (r \<noteq> 0)"
| "py_truthy (JStr s) = (s \<noteq> [])"
| "py_truthy (JArr xs) = (xs \<noteq> [])"
| "py_truthy (JObj kvs) = (kvs \<noteq> [])"

text \<open>The number a value compares as with \<^verbatim>\<open>==\<close> and \<^verbatim>\<open><=\<close> against an
  integer (\<^verbatim>\<open>True\<close> is 1, \<^verbatim>\<open>False\<close> is 0); \<open>None\<close> for a value that is no number.\<close>

fun py_num :: "json \<Rightarrow> real option" where
  "py_num (JNum r) = Some r"
| "py_num (JBool b) = Some (if b then 1 else 0)"
| "py_num JNull = None"
| "py_num (JStr s) = None"
| "py_num (JArr xs) = None"
| "py_num (JObj kvs) = None"

text \<open>\<^verbatim>\<open>lo <= v <= hi\<close> for integers \<open>lo\<close>, \<open>hi\<close>: an ordering comparison between
  an integer and a value that is no number raises \<^verbatim>\<open>TypeError\<close>.\<close>

definition py_between :: "int \<Rightarrow> json \<Rightarrow> int \<Rightarrow> py_exn + bool" where
  "py_between lo v hi =
     (case py_num v of
        None \<Rightarrow> Inl TypeError
      | Some r \<Rightarrow> Inr (of_int lo \<le> r \<and> r \<le> of_int hi))"

text \<open>\<^verbatim>\<open>round(x)\<close>: the nearest integer, a tie going to the even neighbour.\<close>

definition py_round :: "real \<Rightarrow> int" where
  "py_round x =
     (let f = \<lfloor>x\<rfloor>; d = x - of_int f
      in if d < 1 / 2 then f else if 1 / 2 < d then f + 1
         else if even f then f else f + 1)"

text \<open>\<^verbatim>\<open>round(x, 1)\<close>.\<close>

definition py_round1 :: "real \<Rightarrow> real" where
  "py_round1 x = of_int (py_round (x * 10)) / 10"

section \<open>Fetching\<close>

text \<open>
  The outcome of the body of \<^verbatim>\<open>fetch_json\<close>'s \<^verbatim>\<open>try\<close> block
  (\<^verbatim>\<open>urlopen\<close>, \<^verbatim>\<open>response.read()\<close>, \<^verbatim>\<open>.decode("utf-8")\<close>,
  \<^verbatim>\<open>json.loads\<close>): one of the calls raises, or the body is loaded.
\<close>

datatype fetch_outcome = Raises py_exn | Loads json

text \<open>\<^verbatim>\<open>except (urllib.error.URLError, json.JSONDecodeError)\<close>.\<close>

definition fetch_json_catches :: "py_exn \<Rightarrow> bool" where
  "fetch_json_catches e = (e = URLError \<or> e = HTTPError \<or> e = JSONDecodeError)"

text \<open>Python's \<^verbatim>\<open>None\<close> is \<open>JNull\<close>: \<^verbatim>\<open>fetch_json\<close> returns it for a caught
  exception, and also when the body is the JSON text \<^verbatim>\<open>null\<close>.\<close>

definition fetch_json :: "fetch_outcome \<Rightarrow> py_exn + json" where
  "fetch_json r =
     (case r of
        Loads j \<Rightarrow> Inr j
      | Raises e \<Rightarrow> if fetch_json_catches e then Inr JNull else Inl e)"

text \<open>Sequencing of statements that may raise.\<close>

definition py_bind :: "py_exn + 'a \<Rightarrow> ('a \<Rightarrow> py_exn + 'b) \<Rightarrow> py_exn + 'b" where
  "py_bind m f = (case m of Inl e \<Rightarrow> Inl e | Inr v \<Rightarrow> f v)"

text \<open>\<^verbatim>\<open>try: ... except Exception: ...\<close> followed by the function's final
  \<^verbatim>\<open>return\<close> of the default \<open>d\<close>.\<close>

definition py_try :: "py_exn + 'a \<Rightarrow> 'a \<Rightarrow> 'a" where
  "py_try m d = (case m of Inl e \<Rightarrow> d | Inr v \<Rightarrow> v)"

subsection \<open>Cloud coverage\<close>

definition cloud_coverage_body :: "(string \<Rightarrow> real option) \<Rightarrow> json \<Rightarrow> py_exn + real option" where
  "cloud_coverage_body sf data =
     py_bind (py_get data ''properties'' (JObj [])) (\<lambda>props.
     py_bind (py_get props ''timeseries'' (JArr [])) (\<lambda>timeseries.
       if py_truthy timeseries then
         py_bind (py_getitem timeseries 0) (\<lambda>entry.
         py_bind (py_get entry ''data'' (JObj [])) (\<lambda>d.
         py_bind (py_get d ''instant'' (JObj [])) (\<lambda>inst.
         py_bind (py_get inst ''details'' (JObj [])) (\<lambda>instant_data.
         py_bind (py_get instant_data ''cloud_area_fraction'' JNull) (\<lambda>cloud_coverage.
           if cloud_coverage \<noteq> JNull
           then py_bind (py_float sf cloud_coverage) (\<lambda>x. Inr (Some x))
           else Inr None)))))
       else Inr None))"

definition fetch_cloud_coverage ::
  "(string \<Rightarrow> real option) \<Rightarrow> fetch_outcome \<Rightarrow> py_exn + real option" where
  "fetch_cloud_coverage sf r =
     py_bind (fetch_json r) (\<lambda>data.
       if data = JNull then Inr None
       else Inr (py_try (cloud_coverage_body sf data) None))"

subsection \<open>Aurora probability grid\<close>

text \<open>One pass of the loop over \<^verbatim>\<open>coordinates\<close>; the state is
  \<^verbatim>\<open>(point_probability, regional_values)\<close>.\<close>

definition ovation_step ::
  "(string \<Rightarrow> real option) \<Rightarrow> int \<Rightarrow> int \<Rightarrow> json \<Rightarrow> real option \<times> real list
     \<Rightarrow> py_exn + (real option \<times> real list)" where
  "ovation_step sf target_lat target_lon coord st =
     py_bind (py_getitem coord 0) (\<lambda>coord_lon.
     py_bind (py_getitem coord 1) (\<lambda>coord_lat.
     py_bind (py_getitem coord 2) (\<lambda>aurora.
     py_bind (if py_num coord_lat = Some (of_int target_lat)
                 \<and> py_num coord_lon = Some (of_int target_lon)
              then py_bind (py_float sf aurora) (\<lambda>a. Inr (Some a))
              else Inr (fst st)) (\<lambda>point_probability.
     py_bind (py_bind (py_between (target_lon - 1) coord_lon (target_lon + 1)) (\<lambda>b.
                if b then py_between (target_lat - 1) coord_lat (target_lat + 1)
                else Inr False)) (\<lambda>in_region.
     py_bind (if in_region
              then py_bind (py_float sf aurora) (\<lambda>a. Inr (snd st @ [a]))
              else Inr (snd st)) (\<lambda>regional_values.
       Inr (point_probability, regional_values)))))))"

fun ovation_loop ::
  "(string \<Rightarrow> real option) \<Rightarrow> int \<Rightarrow> int \<Rightarrow> json list \<Rightarrow> real option \<times> real list
     \<Rightarrow> py_exn + (real option \<times> real list)" where
  "ovation_loop sf target_lat target_lon [] st = Inr st"
| "ovation_loop sf target_lat target_lon (coord # rest) st =
     (case ovation_step sf target_lat target_lon coord st of
        Inl e \<Rightarrow> Inl e
      | Inr st' \<Rightarrow> ovation_loop sf target_lat target_lon rest st')"

definition ovation_body ::
  "(string \<Rightarrow> real option) \<Rightarrow> json \<Rightarrow> real \<Rightarrow> real \<Rightarrow> py_exn + (real option \<times> real option)" where
  "ovation_body sf data lat lon =
     py_bind (py_get data ''coordinates'' (JArr [])) (\<lambda>coordinates.
     py_bind (py_iter coordinates) (\<lambda>coords.
     py_bind (ovation_loop sf (py_round lat) (py_round lon) coords (None, [])) (\<lambda>st.
       Inr (fst st,
            if snd st \<noteq> []
            then Some (py_round1 (sum_list (snd st) / of_nat (length (snd st))))
            else None))))"

definition fetch_ovation_data ::
  "(string \<Rightarrow> real option) \<Rightarrow> fetch_outcome \<Rightarrow> real \<Rightarrow> real
     \<Rightarrow> py_exn + (real option \<times> real option)" where
  "fetch_ovation_data sf r lat lon =
     py_bind (fetch_json r) (\<lambda>data.
       if data = JNull then Inr (None, None)
       else Inr (py_try (ovation_body sf data lat lon) (None, None)))"

subsection \<open>Planetary K-index\<close>

text \<open>\<^verbatim>\<open>len(row) >= 3 and row[2] == "observed"\<close>.\<close>

definition row_is_observed :: "json \<Rightarrow> py_exn + bool" where
  "row_is_observed row =
     py_bind (py_len row) (\<lambda>n.
       if n \<ge> 3 then py_bind (py_getitem row 2) (\<lambda>tag. Inr (tag = JStr ''observed''))
       else Inr False)"

text \<open>The loop that computes \<^verbatim>\<open>last_observed_idx\<close>; \<open>i\<close> is the index of the
  next row.\<close>

fun find_last_observed :: "json list \<Rightarrow> nat \<Rightarrow> nat option \<Rightarrow> py_exn + nat option" where
  "find_last_observed [] i last_observed_idx = Inr last_observed_idx"
| "find_last_observed (row # rest) i last_observed_idx =
     (case row_is_observed row of
        Inl e \<Rightarrow> Inl e
      | Inr b \<Rightarrow> find_last_observed rest (Suc i) (if b then Some i else last_observed_idx))"

text \<open>\<^verbatim>\<open>float(rows[j][1])\<close>.\<close>

definition kp_at :: "(string \<Rightarrow> real option) \<Rightarrow> json \<Rightarrow> nat \<Rightarrow> py_exn + real" where
  "kp_at sf rows j =
     py_bind (py_getitem rows j) (\<lambda>row.
     py_bind (py_getitem row 1) (\<lambda>kp. py_float sf kp))"

definition kp_body ::
  "(string \<Rightarrow> real option) \<Rightarrow> json
     \<Rightarrow> py_exn + (real option \<times> real option \<times> real option)" where
  "kp_body sf data =
     py_bind (py_slice_from1 data) (\<lambda>rows.
     py_bind (py_iter rows) (\<lambda>rs.
     py_bind (find_last_observed rs 0 None) (\<lambda>last_observed_idx.
       case last_observed_idx of
         None \<Rightarrow> Inr (None, None, None)
       | Some i \<Rightarrow>
           py_bind (kp_at sf rows i) (\<lambda>current_kp.
           py_bind (py_len rows) (\<lambda>n.
           py_bind (if i + 1 < n then py_bind (kp_at sf rows (i + 1)) (\<lambda>k. Inr (Some k))
                    else Inr None) (\<lambda>kp_3h.
           py_bind (if i + 2 < n then py_bind (kp_at sf rows (i + 2)) (\<lambda>k. Inr (Some k))
                    else Inr None) (\<lambda>kp_6h.
             Inr (Some current_kp, kp_3h, kp_6h))))))))"

definition fetch_kp_indices ::
  "(string \<Rightarrow> real option) \<Rightarrow> fetch_outcome
     \<Rightarrow> py_exn + (real option \<times> real option \<times> real option)" where
  "fetch_kp_indices sf r =
     py_bind (fetch_json r) (\<lambda>data.
       if data = JNull then Inr (None, None, None)
       else Inr (py_try (kp_body sf data) (None, None, None)))"

subsection \<open>Solar wind\<close>

definition solar_wind_body ::
  "(string \<Rightarrow> real option) \<Rightarrow> json \<Rightarrow> py_exn + (real option \<times> real option)" where
  "solar_wind_body sf data =
     py_bind (py_get data ''Bz'' JNull) (\<lambda>bz.
     py_bind (py_get data ''Bt'' JNull) (\<lambda>bt.
     py_bind (if bz \<noteq> JNull then py_bind (py_float sf bz) (\<lambda>x. Inr (Some x))
              else Inr None) (\<lambda>bz'.
     py_bind (if bt \<noteq> JNull then py_bind (py_float sf bt) (\<lambda>x. Inr (Some x))
              else Inr None) (\<lambda>bt'.
       Inr (bz', bt')))))"

definition fetch_solar_wind ::
  "(string \<Rightarrow> real option) \<Rightarrow> fetch_outcome \<Rightarrow> py_exn + (real option \<times> real option)" where
  "fetch_solar_wind sf r =
     py_bind (fetch_json r) (\<lambda>data.
       if data = JNull then Inr (None, None)
       else Inr (py_try (solar_wind_body sf data) (None, None)))"

section \<open>Indicator and traffic light\<close>

definition calculate_aurora_indicator :: "real option \<Rightarrow> real option \<Rightarrow> real" where
  "calculate_aurora_indicator aurora_probability clouds =
     (case aurora_probability of
        None \<Rightarrow> 0
      | Some p \<Rightarrow>
          (let visibility =
                 (case clouds of
                    None \<Rightarrow> 1
                  | Some c \<Rightarrow> if c \<le> 50 then 1 else (100 - c) / 50);
               indicator = p * visibility
           in py_round1 (max 0 (min 100 indicator))))"

definition calculate_traffic_light :: "real \<Rightarrow> string" where
  "calculate_traffic_light aurora_indicator =
     (if aurora_indicator \<ge> 50 then ''red''
      else if aurora_indicator \<ge> 25 then ''yellow''
      else if aurora_indicator \<ge> 10 then ''green''
      else ''black'')"

section \<open>Badges\<close>

text \<open>The f-string renderings of numbers are kept symbolic: \<open>Pct0 x\<close> stands for
  \<^verbatim>\<open>f"{x:.0f}%"\<close>, \<open>Dec1 x\<close> for \<^verbatim>\<open>f"{x:.1f}"\<close> and \<open>Dec1nT x\<close> for
  \<^verbatim>\<open>f"{x:.1f} nT"\<close>.\<close>

datatype rendered = Text string | Pct0 real | Dec1 real | Dec1nT real

record badge =
  schemaVersion :: nat
  label :: string
  message :: rendered
  color :: string

definition generate_badge :: "string \<Rightarrow> rendered \<Rightarrow> string \<Rightarrow> badge" where
  "generate_badge l m c = \<lparr>schemaVersion = 1, label = l, message = m, color = c\<rparr>"

definition messages :: "(string \<times> string) list" where
  "messages =
     [(''red'', ''Pretty sure''), (''yellow'', ''Worth checking''),
      (''green'', ''Probably not''), (''black'', ''Definitely not'')]"

definition get_recommendation_badge :: "string \<Rightarrow> badge" where
  "get_recommendation_badge traffic_light =
     generate_badge ''Current Status''
       (Text (case map_of messages traffic_light of Some m \<Rightarrow> m | None \<Rightarrow> ''Unknown''))
       (if traffic_light \<noteq> ''black'' then traffic_light else ''gray'')"

definition get_aurora_probability_badge :: "real option \<Rightarrow> badge" where
  "get_aurora_probability_badge probability =
     (case probability of
        None \<Rightarrow> generate_badge ''Aurora Probability'' (Text ''N/A'') ''gray''
      | Some p \<Rightarrow>
          generate_badge ''Aurora Probability'' (Pct0 p)
            (if p \<ge> 50 then ''red'' else if p \<ge> 25 then ''yellow''
             else if p \<ge> 10 then ''green'' else ''gray''))"

definition get_cloud_coverage_badge :: "real option \<Rightarrow> badge" where
  "get_cloud_coverage_badge clouds =
     (case clouds of
        None \<Rightarrow> generate_badge ''Cloud Coverage'' (Text ''N/A'') ''gray''
      | Some c \<Rightarrow>
          generate_badge ''Cloud Coverage'' (Pct0 c)
            (if c \<le> 25 then ''red'' else if c \<le> 50 then ''yellow''
             else if c \<le> 75 then ''green'' else ''gray''))"

definition get_kp_index_badge :: "real option \<Rightarrow> badge" where
  "get_kp_index_badge kp =
     (case kp of
        None \<Rightarrow> generate_badge ''KP Index'' (Text ''N/A'') ''gray''
      | Some k \<Rightarrow>
          generate_badge ''KP Index'' (Dec1 k)
            (if k \<ge> 5 then ''red'' else if k \<ge> 3 then ''yellow''
             else if k \<ge> 2 then ''green'' else ''gray''))"

definition get_bz_badge :: "real option \<Rightarrow> badge" where
  "get_bz_badge bz =
     (case bz of
        None \<Rightarrow> generate_badge ''Bz'' (Text ''N/A'') ''gray''
      | Some b \<Rightarrow>
          generate_badge ''Bz'' (Dec1nT b)
            (if b \<le> - 10 then ''red'' else if b \<le> - 5 then ''yellow''
             else if b < 0 then ''green'' else ''gray''))"

definition get_bt_badge :: "real option \<Rightarrow> badge" where
  "get_bt_badge bt =
     (case bt of
        None \<Rightarrow> generate_badge ''Bt'' (Text ''N/A'') ''gray''
      | Some b \<Rightarrow>
          generate_badge ''Bt'' (Dec1nT b)
            (if b \<ge> 20 then ''red'' else if b \<ge> 10 then ''yellow''
             else if b \<ge> 5 then ''green'' else ''gray''))"

text \<open>The badge files that \<^verbatim>\<open>write_badges\<close> writes, by name.  Writing a file is
  taken to succeed.\<close>

definition write_badges ::
  "string \<Rightarrow> real option \<Rightarrow> real option \<Rightarrow> real option \<Rightarrow> real option \<Rightarrow> real option
     \<Rightarrow> (string \<times> badge) list" where
  "write_badges traffic_light aurora_prob clouds kp bz bt =
     [(''recommendation'', get_recommendation_badge traffic_light),
      (''aurora-probability'', get_aurora_probability_badge aurora_prob),
      (''cloud-coverage'', get_cloud_coverage_badge clouds),
      (''kp-index'', get_kp_index_badge kp),
      (''bz'', get_bz_badge bz),
      (''bt'', get_bt_badge bt)]"

section \<open>Notification\<close>

text \<open>The reason printed when the notification is skipped (the two window messages
  also print the bound).\<close>

datatype skip_reason =
    NotOnGitHubActions | CredentialsNotConfigured | BeforeWindow | AfterWindow
  | IndicatorBelowYellow

text \<open>The POST request to the Pushover API: the title carries the location name and
  the indicator, the message the two rendered lines.\<close>

record pushover_request =
  token :: string
  user :: string
  title_location :: string
  title_indicator :: real
  prob_str :: rendered
  clouds_str :: rendered

text \<open>What the POST does: the server responds with a status, or \<^verbatim>\<open>urlopen\<close>
  raises.\<close>

datatype post_outcome = Responds nat | PostRaises py_exn

text \<open>The result of a call: the skip reason printed (if any), the requests sent, and
  the value returned or the exception that leaves the function.\<close>

record send_result =
  skipped :: "skip_reason option"
  sent :: "pushover_request list"
  returned :: "py_exn + bool"

definition skip_with :: "skip_reason \<Rightarrow> send_result" where
  "skip_with why = \<lparr>skipped = Some why, sent = [], returned = Inr False\<rparr>"

text \<open>The truth value of \<^verbatim>\<open>os.environ.get(name)\<close>: the variable is set and is not
  the empty string.\<close>

definition env_truthy :: "(string \<rightharpoonup> string) \<Rightarrow> string \<Rightarrow> bool" where
  "env_truthy environ name = (case environ name of None \<Rightarrow> False | Some v \<Rightarrow> v \<noteq> [])"

text \<open>Instants are integers (a fixed unit since the epoch); \<open>now\<close> is what
  \<^verbatim>\<open>datetime.now(FINNISH_TZ)\<close> returns.  A \<^verbatim>\<open>datetime\<close> is always true in a
  condition, so \<^verbatim>\<open>if notify_start\<close> tests for \<^verbatim>\<open>None\<close>.\<close>

definition send_pushover_notification ::
  "(string \<rightharpoonup> string) \<Rightarrow> int \<Rightarrow> post_outcome \<Rightarrow> string \<Rightarrow> real \<Rightarrow> real option
     \<Rightarrow> real option \<Rightarrow> string \<Rightarrow> int option \<Rightarrow> int option \<Rightarrow> send_result" where
  "send_pushover_notification environ now post location_name indicator aurora_prob clouds
       traffic_light notify_start notify_end =
     (if \<not> env_truthy environ ''GITHUB_ACTIONS'' then skip_with NotOnGitHubActions
      else if \<not> env_truthy environ ''PUSHOVER_TOKEN'' \<or> \<not> env_truthy environ ''PUSHOVER_USER''
      then skip_with CredentialsNotConfigured
      else if (notify_start \<noteq> None \<or> notify_end \<noteq> None)
              \<and> (case notify_start of None \<Rightarrow> False | Some s \<Rightarrow> now < s)
      then skip_with BeforeWindow
      else if (notify_start \<noteq> None \<or> notify_end \<noteq> None)
              \<and> (case notify_end of None \<Rightarrow> False | Some e \<Rightarrow> now > e)
      then skip_with AfterWindow
      else if \<not> (traffic_light = ''yellow'' \<or> traffic_light = ''red'')
      then skip_with IndicatorBelowYellow
      else
        \<lparr>skipped = None,
         sent = [\<lparr>token = the (environ ''PUSHOVER_TOKEN''),
                  user = the (environ ''PUSHOVER_USER''),
                  title_location = location_name,
                  title_indicator = indicator,
                  prob_str = (case aurora_prob of Some p \<Rightarrow> Pct0 p | None \<Rightarrow> Text ''N/A''),
                  clouds_str = (case clouds of Some c \<Rightarrow> Pct0 c | None \<Rightarrow> Text ''N/A'')\<rparr>],
         returned =
           (case post of
              Responds status \<Rightarrow> Inr (status = 200)
            | PostRaises e \<Rightarrow> if e = URLError \<or> e = HTTPError then Inr False else Inl e)\<rparr>)"

section \<open>The run\<close>

text \<open>The parsed command line.\<close>

record args =
  arg_location :: string
  arg_lat :: real
  arg_lon :: real
  arg_output :: string
  arg_badges :: bool
  arg_notify_start :: "int option"
  arg_notify_end :: "int option"

text \<open>What the run meets outside the program: the outcome of the four fetches, the
  process environment, the clocks and the outcome of the POST.\<close>

record world =
  cloud_response :: fetch_outcome
  ovation_response :: fetch_outcome
  kp_response :: fetch_outcome
  solar_wind_response :: fetch_outcome
  os_environ :: "string \<rightharpoonup> string"
  time_time :: real
  datetime_now :: int
  pushover_response :: post_outcome

text \<open>What a run leaves behind: the dict dumped to the output file (if it got that
  far), the badge files, the notification call and the exception that ends the run
  (if any).\<close>

record run =
  output_file :: "(string \<times> json) list option"
  badge_files :: "(string \<times> badge) list"
  notification :: "send_result option"
  uncaught :: "py_exn option"

definition aborted :: "py_exn \<Rightarrow> run" where
  "aborted e = \<lparr>output_file = None, badge_files = [], notification = None, uncaught = Some e\<rparr>"

text \<open>A \<^verbatim>\<open>float | None\<close> as \<^verbatim>\<open>json.dump\<close> writes it.\<close>

definition json_of :: "real option \<Rightarrow> json" where
  "json_of v = (case v of None \<Rightarrow> JNull | Some x \<Rightarrow> JNum x)"

text \<open>\<^verbatim>\<open>int(x)\<close> for a float: truncation towards zero.\<close>

definition py_int :: "real \<Rightarrow> int" where
  "py_int x = (if x \<ge> 0 then \<lfloor>x\<rfloor> else \<lceil>x\<rceil>)"

definition main :: "(string \<Rightarrow> real option) \<Rightarrow> world \<Rightarrow> args \<Rightarrow> run" where
  "main sf w a =
     (case fetch_cloud_coverage sf (cloud_response w) of
        Inl e \<Rightarrow> aborted e
      | Inr clouds \<Rightarrow>
     (case fetch_ovation_data sf (ovation_response w) (arg_lat a) (arg_lon a) of
        Inl e \<Rightarrow> aborted e
      | Inr (aurora_point, aurora_region) \<Rightarrow>
     (case fetch_kp_indices sf (kp_response w) of
        Inl e \<Rightarrow> aborted e
      | Inr (kp_observed, kp_3h, kp_6h) \<Rightarrow>
     (case fetch_solar_wind sf (solar_wind_response w) of
        Inl e \<Rightarrow> aborted e
      | Inr (bz, bt) \<Rightarrow>
          (let indicator = calculate_aurora_indicator aurora_point clouds;
               traffic_light = calculate_traffic_light indicator;
               output =
                 [(''last-update'', JNum (of_int (py_int (time_time w)))),
                  (''cloud-coverage'', json_of clouds),
                  (''aurora-probability'', json_of aurora_point),
                  (''aurora-probability-region'', json_of aurora_region),
                  (''kp-index'', json_of kp_observed),
                  (''kp-index-3h'', json_of kp_3h),
                  (''kp-index-6h'', json_of kp_6h),
                  (''bz'', json_of bz),
                  (''bt'', json_of bt),
                  (''aurora-indicator'', JNum indicator),
                  (''aurora-traffic-light'', JStr traffic_light)];
               n = send_pushover_notification (os_environ w) (datetime_now w)
                     (pushover_response w) (arg_location a) indicator aurora_point clouds
                     traffic_light (arg_notify_start a) (arg_notify_end a)
           in \<lparr>output_file = Some output,
               badge_files =
                 (if arg_badges a
                  then write_badges traffic_light aurora_point clouds kp_observed bz bt
                  else []),
               notification = Some n,
               uncaught = (case returned n of Inl e \<Rightarrow> Some e | Inr b \<Rightarrow> None)\<rparr>)))))"

section \<open>The specification's wording\<close>

text \<open>The definitions of this section follow the specification, not the script; the
  theorems compare them with the script's functions.\<close>

subsection \<open>Score\<close>





subsection \<open>K-index table\<close>

text \<open>A row is tagged \<open>observed\<close> when it is a list whose third entry is that
  string.\<close>

definition row_tagged_observed :: "json \<Rightarrow> bool" where
  "row_tagged_observed row =
     (case row of JArr xs \<Rightarrow> 3 \<le> length xs \<and> xs ! 2 = JStr ''observed'' | _ \<Rightarrow> False)"

text \<open>The Kp value of a row: what \<^verbatim>\<open>float(row[1])\<close> gives, \<open>None\<close> when the
  entry is missing or \<^verbatim>\<open>float\<close> rejects it.\<close>

definition row_kp :: "(string \<Rightarrow> real option) \<Rightarrow> json \<Rightarrow> real option" where
  "row_kp sf row =
     (case py_bind (py_getitem row 1) (py_float sf) of Inl e \<Rightarrow> None | Inr k \<Rightarrow> Some k)"

text \<open>The index of the last row tagged \<open>observed\<close>.\<close>

definition spec_last_observed :: "json list \<Rightarrow> nat option" where
  "spec_last_observed rows =
     (let observed = filter (\<lambda>i. row_tagged_observed (rows ! i)) [0..<length rows]
      in if observed = [] then None else Some (last observed))"



text \<open>The example table of the specification, under the header row of the NOAA
  product.\<close>

definition example_kp_table :: json where
  "example_kp_table =
     JArr [JArr [JStr ''time_tag'', JStr ''Kp'', JStr ''observed'', JStr ''noaa_scale''],
           JArr [JStr ''t0'', JNum 3, JStr ''observed''],
           JArr [JStr ''t1'', JNum 4, JStr ''observed''],
           JArr [JStr ''t2'', JNum 5, JStr ''forecast''],
           JArr [JStr ''t3'', JNum 6, JStr ''forecast'']]"


subsection \<open>Aurora grid\<close>






text \<open>The example grid of the specification.\<close>

definition example_grid :: json where
  "example_grid =
     JObj [(''coordinates'',
            JArr [JArr [JNum 25, JNum 65, JNum 40],
                  JArr [JNum 24, JNum 65, JNum 30],
                  JArr [JNum 26, JNum 64, JNum 20]])]"


subsection \<open>Notification gate\<close>

text \<open>The current time lies in the inclusive window; an absent bound is unbounded on
  its side.\<close>

definition spec_within_window :: "int \<Rightarrow> int option \<Rightarrow> int option \<Rightarrow> bool" where
  "spec_within_window now window_start window_end =
     ((case window_start of None \<Rightarrow> True | Some s \<Rightarrow> s \<le> now)
      \<and> (case window_end of None \<Rightarrow> True | Some e \<Rightarrow> now \<le> e))"

text \<open>The four guards.\<close>

definition spec_guards_pass ::
  "(string \<rightharpoonup> string) \<Rightarrow> int \<Rightarrow> string \<Rightarrow> int option \<Rightarrow> int option \<Rightarrow> bool" where
  "spec_guards_pass environ now traffic_light window_start window_end =
     (env_truthy environ ''GITHUB_ACTIONS''
      \<and> (env_truthy environ ''PUSHOVER_TOKEN'' \<and> env_truthy environ ''PUSHOVER_USER'')
      \<and> spec_within_window now window_start window_end
      \<and> (traffic_light = ''yellow'' \<or> traffic_light = ''red''))"

text \<open>The reason of the first guard that fails, in the order of the specification.\<close>

definition spec_skip_reason ::
  "(string \<rightharpoonup> string) \<Rightarrow> int \<Rightarrow> string \<Rightarrow> int option \<Rightarrow> int option \<Rightarrow> skip_reason option" where
  "spec_skip_reason environ now traffic_light window_start window_end =
     (if \<not> env_truthy environ ''GITHUB_ACTIONS'' then Some NotOnGitHubActions
      else if \<not> (env_truthy environ ''PUSHOVER_TOKEN'' \<and> env_truthy environ ''PUSHOVER_USER'')
      then Some CredentialsNotConfigured
      else if \<not> spec_within_window now window_start window_end
      then Some (if (case window_start of None \<Rightarrow> False | Some s \<Rightarrow> now < s)
                 then BeforeWindow else AfterWindow)
      else if \<not> (traffic_light = ''yellow'' \<or> traffic_light = ''red'')
      then Some IndicatorBelowYellow
      else None)"

subsection \<open>An example run\<close>

text \<open>A cloud forecast with 20 percent coverage in its first entry, the default command
  line, and a world in which every fetch succeeds, the notification variables are set
  and the POST is answered with status 200.\<close>

definition example_cloud_forecast :: json where
  "example_cloud_forecast =
     JObj [(''type'', JStr ''Feature''),
           (''properties'',
            JObj [(''timeseries'',
                   JArr [JObj [(''time'', JStr ''2026-02-01T18:00:00Z''),
                               (''data'',
                                JObj [(''instant'',
                                       JObj [(''details'',
                                              JObj [(''cloud_area_fraction'', JNum 20)])])])]])])]"

definition example_args :: args where
  "example_args =
     \<lparr>arg_location = ''Oulu'', arg_lat = 6501 / 100, arg_lon = 2547 / 100,
      arg_output = ''current_observation_oulu.json'', arg_badges = True,
      arg_notify_start = None, arg_notify_end = None\<rparr>"

definition example_world :: world where
  "example_world =
     \<lparr>cloud_response = Loads example_cloud_forecast,
      ovation_response = Loads example_grid,
      kp_response = Loads example_kp_table,
      solar_wind_response = Loads (JObj [(''Bz'', JNum (- 3)), (''Bt'', JNum 6)]),
      os_environ = [''GITHUB_ACTIONS'' \<mapsto> ''true'', ''PUSHOVER_TOKEN'' \<mapsto> ''token'',
                 ''PUSHOVER_USER'' \<mapsto> ''user''],
      time_time = 1770000000,
      datetime_now = 0,
      pushover_response = Responds 200\<rparr>"


section \<open>Rounding\<close>











text \<open>
  Claim C2.  \<^verbatim>\<open>calculate_traffic_light\<close> returns \<open>red\<close> exactly for the scores from 50
  on, \<open>yellow\<close> exactly on \<open>[25, 50)\<close>, \<open>green\<close> exactly on \<open>[10, 25)\<close> and
  \<open>black\<close> exactly below 10, so every score has one band and the bands do not
  overlap; 10, 25 and 50 fall into the higher band.
\<close>

theorem traffic_light_bands:
  "(calculate_traffic_light s = ''red'') = (50 \<le> s)
   \<and> (calculate_traffic_light s = ''yellow'') = (25 \<le> s \<and> s < 50)
   \<and> (calculate_traffic_light s = ''green'') = (10 \<le> s \<and> s < 25)
   \<and> (calculate_traffic_light s = ''black'') = (s < 10)
   \<and> calculate_traffic_light 10 = ''green''
   \<and> calculate_traffic_light 25 = ''yellow''
   \<and> calculate_traffic_light 50 = ''red''"
  unfolding calculate_traffic_light_def by auto

theorem traffic_light_bands_witness:
  "calculate_traffic_light 30 = ''yellow'' \<and> calculate_traffic_light 9.9 = ''black''"
  using traffic_light_bands [of 30] traffic_light_bands [of "9.9"]
  by simp





section \<open>The K-index reader\<close>

lemma py_bind_Inr: "py_bind (Inr v) f = f v"
  by (simp add: py_bind_def)

lemma py_bind_Inl: "py_bind (Inl e) f = Inl e"
  by (simp add: py_bind_def)

lemma row_is_observed_Inr: "row_is_observed row = Inr b \<Longrightarrow> b = row_tagged_observed row"
  by (cases row) (auto simp: row_is_observed_def row_tagged_observed_def py_bind_def split: if_splits)


lemma find_last_observed_snoc:
  "find_last_observed (rows @ [r]) n acc =
     (case find_last_observed rows n acc of
        Inl e \<Rightarrow> Inl e
      | Inr a \<Rightarrow>
          (case row_is_observed r of
             Inl e \<Rightarrow> Inl e
           | Inr b \<Rightarrow> Inr (if b then Some (n + length rows) else a)))"
  by (induction rows arbitrary: n acc) (auto split: sum.splits)

lemma spec_last_observed_snoc:
  "spec_last_observed (rows @ [r]) =
     (if row_tagged_observed r then Some (length rows) else spec_last_observed rows)"
proof -
  have "filter (\<lambda>i. row_tagged_observed ((rows @ [r]) ! i)) [0..<length rows]
        = filter (\<lambda>i. row_tagged_observed (rows ! i)) [0..<length rows]"
    by (rule filter_cong) (auto simp: nth_append)
  then show ?thesis
    by (simp add: spec_last_observed_def Let_def)
qed

lemma find_last_observed_Inr:
  "find_last_observed rows 0 None = Inr r \<Longrightarrow> r = spec_last_observed rows"
proof (induction rows arbitrary: r rule: rev_induct)
  case Nil
  then show ?case by (simp add: spec_last_observed_def)
next
  case (snoc x xs)
  then show ?case
    by (auto simp: find_last_observed_snoc spec_last_observed_snoc
             split: sum.splits if_splits dest: row_is_observed_Inr)
qed



lemma kp_body_table:
  "kp_body sf (JArr (header # rows)) =
     py_bind (find_last_observed rows 0 None) (\<lambda>last_observed_idx.
       case last_observed_idx of
         None \<Rightarrow> Inr (None, None, None)
       | Some i \<Rightarrow>
           py_bind (kp_at sf (JArr rows) i) (\<lambda>current_kp.
           py_bind (if i + 1 < length rows
                    then py_bind (kp_at sf (JArr rows) (i + 1)) (\<lambda>k. Inr (Some k))
                    else Inr None) (\<lambda>kp_3h.
           py_bind (if i + 2 < length rows
                    then py_bind (kp_at sf (JArr rows) (i + 2)) (\<lambda>k. Inr (Some k))
                    else Inr None) (\<lambda>kp_6h.
             Inr (Some current_kp, kp_3h, kp_6h)))))"
  by (simp add: kp_body_def py_bind_Inr cong: option.case_cong)

lemma kp_at_row_kp:
  "j < length rows \<Longrightarrow>
     row_kp sf (rows ! j) = (case kp_at sf (JArr rows) j of Inl e \<Rightarrow> None | Inr k \<Rightarrow> Some k)"
  by (simp add: kp_at_def row_kp_def py_bind_def)

lemma fetch_kp_indices_table:
  "fetch_kp_indices sf (Loads (JArr (header # rows))) =
     Inr (py_try (kp_body sf (JArr (header # rows))) (None, None, None))"
  by (simp add: fetch_kp_indices_def fetch_json_def py_bind_def)

lemma example_kp_table_indices:
  "fetch_kp_indices sf (Loads example_kp_table) = Inr (Some 4, Some 5, Some 6)"
  by (simp add: example_kp_table_def fetch_kp_indices_def fetch_json_def py_bind_def py_try_def
        kp_body_def row_is_observed_def kp_at_def)



text \<open>
  Claim C10.  When the row one or two positions after the last observed row exists
  and has no Kp entry that \<^verbatim>\<open>float\<close> accepts, \<^verbatim>\<open>fetch_kp_indices\<close> returns
  absence for all three values, the current one included.
\<close>

theorem kp_parse_failure_discards_all:
  assumes "spec_last_observed rows = Some i"
    and "(i + 1 < length rows \<and> row_kp sf (rows ! (i + 1)) = None)
         \<or> (i + 2 < length rows \<and> row_kp sf (rows ! (i + 2)) = None)"
  shows "fetch_kp_indices sf (Loads (JArr (header # rows))) = Inr (None, None, None)"
proof -
  have "kp_body sf (JArr (header # rows)) = Inr (None, None, None)
        \<or> (\<exists>e. kp_body sf (JArr (header # rows)) = Inl e)"
  proof (cases "find_last_observed rows 0 None")
    case (Inl e)
    then show ?thesis by (simp add: kp_body_table py_bind_def)
  next
    case (Inr r)
    then have r: "r = Some i" using find_last_observed_Inr assms(1) by simp
    from assms(2) show ?thesis
    proof
      assume a: "i + 1 < length rows \<and> row_kp sf (rows ! (i + 1)) = None"
      then obtain e where "kp_at sf (JArr rows) (i + 1) = Inl e"
        using kp_at_row_kp [of "i + 1" rows sf] by (auto split: sum.splits)
      with a Inr r show ?thesis
        by (auto simp: kp_body_table py_bind_def split: sum.splits)
    next
      assume a: "i + 2 < length rows \<and> row_kp sf (rows ! (i + 2)) = None"
      then obtain e where "kp_at sf (JArr rows) (i + 2) = Inl e"
        using kp_at_row_kp [of "i + 2" rows sf] by (auto split: sum.splits)
      with a Inr r show ?thesis
        by (auto simp: kp_body_table py_bind_def split: sum.splits)
    qed
  qed
  then show ?thesis
    by (auto simp: fetch_kp_indices_table py_try_def)
qed

theorem kp_parse_failure_discards_all_witness:
  "spec_last_observed [JArr [JStr ''t0'', JNum 4, JStr ''observed''], JArr [JStr ''t1'', JNull, JStr ''predicted'']] = Some 0
   \<and> row_kp (\<lambda>s. None) (JArr [JStr ''t0'', JNum 4, JStr ''observed'']) = Some 4
   \<and> row_kp (\<lambda>s. None) (JArr [JStr ''t1'', JNull, JStr ''predicted'']) = None
   \<and> fetch_kp_indices (\<lambda>s. None)
        (Loads (JArr [JArr [JStr ''time_tag'', JStr ''Kp'', JStr ''observed'', JStr ''noaa_scale''],
                      JArr [JStr ''t0'', JNum 4, JStr ''observed''],
                      JArr [JStr ''t1'', JNull, JStr ''predicted'']]))
      = Inr (None, None, None)"
proof -
  have a: "spec_last_observed [JArr [JStr ''t0'', JNum 4, JStr ''observed''], JArr [JStr ''t1'', JNull, JStr ''predicted'']] = Some 0"
    by (simp add: spec_last_observed_def row_tagged_observed_def upt_rec Let_def)
  have b: "row_kp (\<lambda>s. None) (JArr [JStr ''t1'', JNull, JStr ''predicted'']) = None"
    by (simp add: row_kp_def py_bind_def)
  have c: "row_kp (\<lambda>s. None) (JArr [JStr ''t0'', JNum 4, JStr ''observed'']) = Some 4"
    by (simp add: row_kp_def py_bind_def)
  show ?thesis
    using kp_parse_failure_discards_all [OF a, of "\<lambda>s. None" "JArr [JStr ''time_tag'', JStr ''Kp'', JStr ''observed'', JStr ''noaa_scale'']"] a b c
    by simp
qed


section \<open>The aurora grid reader\<close>



lemma example_target_lat: "py_round (6501 / 100) = 65"
  by (simp add: py_round_def Let_def)

lemma example_target_lon: "py_round (2547 / 100) = 25"
  by (simp add: py_round_def Let_def)

lemma example_grid_probabilities:
  "fetch_ovation_data sf (Loads example_grid) (6501 / 100) (2547 / 100) = Inr (Some 40, Some 30)"
proof -
  have "ovation_body sf example_grid (6501 / 100) (2547 / 100) = Inr (Some 40, Some 30)"
    unfolding ovation_body_def example_target_lat example_target_lon
    by (simp add: example_grid_def py_bind_Inr ovation_step_def py_between_def py_round1_def
          py_round_def Let_def)
  then show ?thesis
    by (simp add: fetch_ovation_data_def fetch_json_def py_bind_Inr py_try_def example_grid_def)
qed




section \<open>The notification gate\<close>

lemma ex_cloud: "fetch_cloud_coverage sf (Loads example_cloud_forecast) = Inr (Some 20)"
  by (simp add: fetch_cloud_coverage_def fetch_json_def py_bind_Inr py_try_def
        cloud_coverage_body_def example_cloud_forecast_def)

lemma ex_solar: "fetch_solar_wind sf (Loads (JObj [(''Bz'', JNum (- 3)), (''Bt'', JNum 6)])) = Inr (Some (- 3), Some 6)"
  by (simp add: fetch_solar_wind_def fetch_json_def py_bind_Inr py_try_def solar_wind_body_def)

lemma send_sent_length:
  "length (sent (send_pushover_notification environ now post location_name indicator aurora_prob
       clouds traffic_light window_start window_end))
   = (if spec_guards_pass environ now traffic_light window_start window_end then 1 else 0)"
  by (auto simp: send_pushover_notification_def skip_with_def spec_guards_pass_def
        spec_within_window_def split: option.splits)

lemma send_skipped:
  "skipped (send_pushover_notification environ now post location_name indicator aurora_prob
       clouds traffic_light window_start window_end)
   = spec_skip_reason environ now traffic_light window_start window_end"
  by (auto simp: send_pushover_notification_def skip_with_def spec_skip_reason_def
        spec_within_window_def split: option.splits)

text \<open>
  Claim C4.  \<^verbatim>\<open>send_pushover_notification\<close> sends one request exactly when the four
  guards pass, and never more than one: \<^verbatim>\<open>GITHUB_ACTIONS\<close> is set (to a non-empty
  string), \<^verbatim>\<open>PUSHOVER_TOKEN\<close> and \<^verbatim>\<open>PUSHOVER_USER\<close> are both set (non-empty), the
  current time lies in the inclusive window (an absent bound does not restrict), and the
  traffic light is \<open>yellow\<close> or \<open>red\<close>.  The guards are tried in this order and the
  first one that fails gives the reason printed.  With the traffic light \<open>green\<close>
  nothing is sent, whatever the other arguments.
\<close>

theorem notification_gate:
  "(length (sent (send_pushover_notification environ now post location_name indicator aurora_prob
       clouds traffic_light window_start window_end)) = 1)
     = spec_guards_pass environ now traffic_light window_start window_end
   \<and> length (sent (send_pushover_notification environ now post location_name indicator
         aurora_prob clouds traffic_light window_start window_end)) \<le> 1
   \<and> skipped (send_pushover_notification environ now post location_name indicator aurora_prob
         clouds traffic_light window_start window_end)
       = spec_skip_reason environ now traffic_light window_start window_end
   \<and> (spec_skip_reason environ now traffic_light window_start window_end = None)
       = spec_guards_pass environ now traffic_light window_start window_end
   \<and> sent (send_pushover_notification environ now post location_name indicator aurora_prob
         clouds ''green'' window_start window_end) = []"
proof -
  have "(spec_skip_reason environ now traffic_light window_start window_end = None)
       = spec_guards_pass environ now traffic_light window_start window_end"
    by (auto simp: spec_skip_reason_def spec_guards_pass_def)
  moreover have "sent (send_pushover_notification environ now post location_name indicator aurora_prob
         clouds ''green'' window_start window_end) = []"
    by (simp add: send_pushover_notification_def skip_with_def)
  ultimately show ?thesis
    by (simp add: send_sent_length send_skipped)
qed

theorem notification_gate_witness:
  "spec_guards_pass (os_environ example_world) 0 ''red'' None None
   \<and> length (sent (send_pushover_notification (os_environ example_world) 0 (Responds 200) ''Oulu''
         60 (Some 60) (Some 20) ''red'' None None)) = 1
   \<and> skipped (send_pushover_notification (os_environ example_world) 0 (Responds 200) ''Oulu''
         60 (Some 60) (Some 20) ''red'' None None) = None
   \<and> skipped (send_pushover_notification (os_environ example_world) 0 (Responds 200) ''Oulu''
         12 (Some 12) (Some 20) ''green'' None None) = Some IndicatorBelowYellow
   \<and> skipped (send_pushover_notification (os_environ example_world) 5 (Responds 200) ''Oulu''
         60 (Some 60) (Some 20) ''red'' (Some 6) None) = Some BeforeWindow
   \<and> skipped (send_pushover_notification (os_environ example_world) 5 (Responds 200) ''Oulu''
         60 (Some 60) (Some 20) ''red'' (Some 5) (Some 5)) = None
   \<and> skipped (send_pushover_notification Map.empty 5 (Responds 200) ''Oulu''
         60 (Some 60) (Some 20) ''red'' (Some 5) (Some 5)) = Some NotOnGitHubActions"
  using notification_gate [of "os_environ example_world" 0 "Responds 200" "''Oulu''" 60 "Some 60" "Some 20" "''red''" None None]
    notification_gate [of "os_environ example_world" 0 "Responds 200" "''Oulu''" 12 "Some 12" "Some 20" "''green''" None None]
    notification_gate [of "os_environ example_world" 5 "Responds 200" "''Oulu''" 60 "Some 60" "Some 20" "''red''" "Some 6" None]
    notification_gate [of "os_environ example_world" 5 "Responds 200" "''Oulu''" 60 "Some 60" "Some 20" "''red''" "Some 5" "Some 5"]
    notification_gate [of Map.empty 5 "Responds 200" "''Oulu''" 60 "Some 60" "Some 20" "''red''" "Some 5" "Some 5"]
  by (simp add: spec_guards_pass_def spec_skip_reason_def spec_within_window_def env_truthy_def
        example_world_def)

section \<open>The run\<close>

lemma main_aborts_cloud:
  "fetch_cloud_coverage sf (cloud_response w) = Inl e \<Longrightarrow> main sf w a = aborted e"
  by (simp add: main_def)

lemma main_completed:
  assumes "output_file (main sf w a) = Some out"
  obtains clouds aurora_point aurora_region kp_observed kp_3h kp_6h bz bt where
    "fetch_cloud_coverage sf (cloud_response w) = Inr clouds"
    "fetch_ovation_data sf (ovation_response w) (arg_lat a) (arg_lon a)
       = Inr (aurora_point, aurora_region)"
    "out = [(''last-update'', JNum (of_int (py_int (time_time w)))),
            (''cloud-coverage'', json_of clouds),
            (''aurora-probability'', json_of aurora_point),
            (''aurora-probability-region'', json_of aurora_region),
            (''kp-index'', json_of kp_observed),
            (''kp-index-3h'', json_of kp_3h),
            (''kp-index-6h'', json_of kp_6h),
            (''bz'', json_of bz),
            (''bt'', json_of bt),
            (''aurora-indicator'', JNum (calculate_aurora_indicator aurora_point clouds)),
            (''aurora-traffic-light'',
             JStr (calculate_traffic_light (calculate_aurora_indicator aurora_point clouds)))]"
    "badge_files (main sf w a) =
       (if arg_badges a
        then write_badges (calculate_traffic_light (calculate_aurora_indicator aurora_point clouds))
               aurora_point clouds kp_observed bz bt
        else [])"
    "notification (main sf w a) =
       Some (send_pushover_notification (os_environ w) (datetime_now w) (pushover_response w)
               (arg_location a) (calculate_aurora_indicator aurora_point clouds) aurora_point
               clouds (calculate_traffic_light (calculate_aurora_indicator aurora_point clouds))
               (arg_notify_start a) (arg_notify_end a))"
  using assms
  by (auto simp: main_def aborted_def Let_def split: sum.splits prod.splits)

lemma main_notified:
  assumes "notification (main sf w a) = Some n"
  obtains out where "output_file (main sf w a) = Some out"
  using assms
  by (auto simp: main_def aborted_def Let_def split: sum.splits prod.splits)

lemma fetch_cloud_coverage_uncaught:
  "\<not> fetch_json_catches e \<Longrightarrow> fetch_cloud_coverage sf (Raises e) = Inl e"
  by (simp add: fetch_cloud_coverage_def fetch_json_def py_bind_Inl)

lemma ex_indicator: "calculate_aurora_indicator (Some 40) (Some 20) = 40"
  by (simp add: calculate_aurora_indicator_def py_round1_def py_round_def Let_def)

lemma ex_indicator_cloudless: "calculate_aurora_indicator (Some 40) None = 40"
  by (simp add: calculate_aurora_indicator_def py_round1_def py_round_def Let_def)

lemma ex_main:
  "main sf example_world example_args =
     \<lparr>output_file =
        Some [(''last-update'', JNum 1770000000),
              (''cloud-coverage'', JNum 20),
              (''aurora-probability'', JNum 40),
              (''aurora-probability-region'', JNum 30),
              (''kp-index'', JNum 4),
              (''kp-index-3h'', JNum 5),
              (''kp-index-6h'', JNum 6),
              (''bz'', JNum (- 3)),
              (''bt'', JNum 6),
              (''aurora-indicator'', JNum 40),
              (''aurora-traffic-light'', JStr ''yellow'')],
      badge_files = write_badges ''yellow'' (Some 40) (Some 20) (Some 4) (Some (- 3)) (Some 6),
      notification =
        Some \<lparr>skipped = None,
              sent = [\<lparr>token = ''token'', user = ''user'', title_location = ''Oulu'',
                       title_indicator = 40, prob_str = Pct0 40, clouds_str = Pct0 20\<rparr>],
              returned = Inr True\<rparr>,
      uncaught = None\<rparr>"
  by (simp add: main_def example_world_def example_args_def ex_cloud
        example_grid_probabilities example_kp_table_indices ex_solar
        ex_indicator calculate_traffic_light_def json_of_def py_int_def
        send_pushover_notification_def env_truthy_def Let_def)

lemma ex_main_no_aurora:
  "main sf (example_world\<lparr>ovation_response := Raises URLError\<rparr>) example_args =
     \<lparr>output_file =
        Some [(''last-update'', JNum 1770000000),
              (''cloud-coverage'', JNum 20),
              (''aurora-probability'', JNull),
              (''aurora-probability-region'', JNull),
              (''kp-index'', JNum 4),
              (''kp-index-3h'', JNum 5),
              (''kp-index-6h'', JNum 6),
              (''bz'', JNum (- 3)),
              (''bt'', JNum 6),
              (''aurora-indicator'', JNum 0),
              (''aurora-traffic-light'', JStr ''black'')],
      badge_files = write_badges ''black'' None (Some 20) (Some 4) (Some (- 3)) (Some 6),
      notification = Some (skip_with IndicatorBelowYellow),
      uncaught = None\<rparr>"
  by (simp add: main_def example_world_def example_args_def ex_cloud
        example_kp_table_indices ex_solar
        fetch_ovation_data_def fetch_json_def fetch_json_catches_def py_bind_Inr
        calculate_aurora_indicator_def calculate_traffic_light_def json_of_def py_int_def
        send_pushover_notification_def env_truthy_def Let_def skip_with_def)

lemma ex_main_no_clouds:
  "main sf (example_world\<lparr>cloud_response := Raises URLError\<rparr>) example_args =
     \<lparr>output_file =
        Some [(''last-update'', JNum 1770000000),
              (''cloud-coverage'', JNull),
              (''aurora-probability'', JNum 40),
              (''aurora-probability-region'', JNum 30),
              (''kp-index'', JNum 4),
              (''kp-index-3h'', JNum 5),
              (''kp-index-6h'', JNum 6),
              (''bz'', JNum (- 3)),
              (''bt'', JNum 6),
              (''aurora-indicator'', JNum 40),
              (''aurora-traffic-light'', JStr ''yellow'')],
      badge_files = write_badges ''yellow'' (Some 40) None (Some 4) (Some (- 3)) (Some 6),
      notification =
        Some \<lparr>skipped = None,
              sent = [\<lparr>token = ''token'', user = ''user'', title_location = ''Oulu'',
                       title_indicator = 40, prob_str = Pct0 40, clouds_str = Text ''N/A''\<rparr>],
              returned = Inr True\<rparr>,
      uncaught = None\<rparr>"
  by (simp add: main_def example_world_def example_args_def example_grid_probabilities
        example_kp_table_indices ex_solar
        fetch_cloud_coverage_def fetch_json_def fetch_json_catches_def py_bind_Inr
        ex_indicator_cloudless calculate_traffic_light_def json_of_def py_int_def
        send_pushover_notification_def env_truthy_def Let_def)

text \<open>When every fetch either loads a body or raises an exception that
  \<^verbatim>\<open>fetch_json\<close> catches, the run writes the output file with its eleven keys.\<close>

lemma fetch_json_returns:
  "(\<forall>e. r = Raises e \<longrightarrow> fetch_json_catches e) \<Longrightarrow> \<exists>j. fetch_json r = Inr j"
  by (cases r) (simp_all add: fetch_json_def)

lemma main_writes_output:
  assumes c: "\<forall>e. cloud_response w = Raises e \<longrightarrow> fetch_json_catches e"
    and ov: "\<forall>e. ovation_response w = Raises e \<longrightarrow> fetch_json_catches e"
    and k: "\<forall>e. kp_response w = Raises e \<longrightarrow> fetch_json_catches e"
    and s: "\<forall>e. solar_wind_response w = Raises e \<longrightarrow> fetch_json_catches e"
  shows "\<exists>out. output_file (main sf w a) = Some out
           \<and> map fst out =
               [''last-update'', ''cloud-coverage'', ''aurora-probability'',
                ''aurora-probability-region'', ''kp-index'', ''kp-index-3h'', ''kp-index-6h'',
                ''bz'', ''bt'', ''aurora-indicator'', ''aurora-traffic-light'']"
proof -
  from fetch_json_returns [OF c] obtain j1 where "fetch_json (cloud_response w) = Inr j1" ..
  then have 1: "fetch_cloud_coverage sf (cloud_response w) =
      Inr (if j1 = JNull then None else py_try (cloud_coverage_body sf j1) None)"
    by (simp add: fetch_cloud_coverage_def py_bind_Inr)
  from fetch_json_returns [OF ov] obtain j2 where "fetch_json (ovation_response w) = Inr j2" ..
  then have 2: "fetch_ovation_data sf (ovation_response w) (arg_lat a) (arg_lon a) =
      Inr (if j2 = JNull then (None, None)
           else py_try (ovation_body sf j2 (arg_lat a) (arg_lon a)) (None, None))"
    by (simp add: fetch_ovation_data_def py_bind_Inr)
  from fetch_json_returns [OF k] obtain j3 where "fetch_json (kp_response w) = Inr j3" ..
  then have 3: "fetch_kp_indices sf (kp_response w) =
      Inr (if j3 = JNull then (None, None, None) else py_try (kp_body sf j3) (None, None, None))"
    by (simp add: fetch_kp_indices_def py_bind_Inr)
  from fetch_json_returns [OF s] obtain j4 where "fetch_json (solar_wind_response w) = Inr j4" ..
  then have 4: "fetch_solar_wind sf (solar_wind_response w) =
      Inr (if j4 = JNull then (None, None) else py_try (solar_wind_body sf j4) (None, None))"
    by (simp add: fetch_solar_wind_def py_bind_Inr)
  show ?thesis
    by (simp add: main_def 1 2 3 4 Let_def split: prod.splits)
qed

text \<open>
  Claim C6 says that no failure of a reader keeps the run from writing the output
  file.  \<^verbatim>\<open>fetch_json\<close> is called outside the readers' \<^verbatim>\<open>try\<close> blocks and catches
  \<^verbatim>\<open>URLError\<close> and \<^verbatim>\<open>JSONDecodeError\<close> only: when the fetch of the cloud forecast
  raises anything else (a body that is not UTF-8 raises \<^verbatim>\<open>UnicodeDecodeError\<close>), the
  exception leaves \<^verbatim>\<open>main\<close> and no output file is written.
\<close>

theorem main_aborts_on_uncaught_fetch_error:
  "\<not> fetch_json_catches e \<and> cloud_response w = Raises e
     \<longrightarrow> output_file (main sf w a) = None \<and> uncaught (main sf w a) = Some e"
  by (auto simp: main_aborts_cloud fetch_cloud_coverage_uncaught aborted_def)

theorem main_aborts_on_uncaught_fetch_error_witness:
  "\<not> fetch_json_catches UnicodeDecodeError
   \<and> cloud_response (example_world\<lparr>cloud_response := Raises UnicodeDecodeError\<rparr>)
       = Raises UnicodeDecodeError
   \<and> output_file (main (\<lambda>s. None) (example_world\<lparr>cloud_response := Raises UnicodeDecodeError\<rparr>)
        example_args) = None
   \<and> uncaught (main (\<lambda>s. None) (example_world\<lparr>cloud_response := Raises UnicodeDecodeError\<rparr>)
        example_args) = Some UnicodeDecodeError"
  using main_aborts_on_uncaught_fetch_error [of UnicodeDecodeError "example_world\<lparr>cloud_response := Raises UnicodeDecodeError\<rparr>"
              "\<lambda>s. None" example_args]
  by (simp add: fetch_json_catches_def)


lemma recommendation_bottom:
  "s < 10 \<Longrightarrow>
     calculate_traffic_light s = ''black''
     \<and> color (get_recommendation_badge (calculate_traffic_light s)) = ''gray''
     \<and> message (get_recommendation_badge (calculate_traffic_light s)) = Text ''Definitely not''"
  by (simp add: calculate_traffic_light_def get_recommendation_badge_def generate_badge_def
        messages_def)

lemma recommendation_upper:
  "10 \<le> s \<Longrightarrow>
     color (get_recommendation_badge (calculate_traffic_light s)) = calculate_traffic_light s
     \<and> (calculate_traffic_light s = ''red'' \<or> calculate_traffic_light s = ''yellow''
          \<or> calculate_traffic_light s = ''green'')"
  by (simp add: calculate_traffic_light_def get_recommendation_badge_def generate_badge_def)

text \<open>
  Claim C8.  In a run that writes the output file and the badges, the snapshot's
  \<open>aurora-traffic-light\<close> is the traffic light of the snapshot's indicator \<open>s\<close>; for
  \<open>s < 10\<close> it is \<open>black\<close> while the recommendation badge has the colour \<open>gray\<close>
  and the message \<open>Definitely not\<close>; from 10 on the badge colour is the snapshot
  string, one of \<open>red\<close>, \<open>yellow\<close>, \<open>green\<close>.
\<close>

theorem snapshot_black_badge_gray:
  "output_file (main sf w a) \<noteq> None \<and> arg_badges a \<longrightarrow>
     (\<exists>out s b.
        output_file (main sf w a) = Some out
        \<and> map_of out ''aurora-indicator'' = Some (JNum s)
        \<and> map_of out ''aurora-traffic-light'' = Some (JStr (calculate_traffic_light s))
        \<and> map_of (badge_files (main sf w a)) ''recommendation'' = Some b
        \<and> (s < 10 \<longrightarrow>
              calculate_traffic_light s = ''black'' \<and> color b = ''gray''
              \<and> message b = Text ''Definitely not'')
        \<and> (10 \<le> s \<longrightarrow>
              color b = calculate_traffic_light s
              \<and> (calculate_traffic_light s = ''red'' \<or> calculate_traffic_light s = ''yellow''
                   \<or> calculate_traffic_light s = ''green'')))"
proof
  assume h: "output_file (main sf w a) \<noteq> None \<and> arg_badges a"
  then obtain out where o: "output_file (main sf w a) = Some out"
    by auto
  from o obtain clouds aurora_point aurora_region kp_observed kp_3h kp_6h bz bt where
    "fetch_cloud_coverage sf (cloud_response w) = Inr clouds"
    "fetch_ovation_data sf (ovation_response w) (arg_lat a) (arg_lon a)
       = Inr (aurora_point, aurora_region)"
    and out_eq:
    "out = [(''last-update'', JNum (of_int (py_int (time_time w)))),
            (''cloud-coverage'', json_of clouds),
            (''aurora-probability'', json_of aurora_point),
            (''aurora-probability-region'', json_of aurora_region),
            (''kp-index'', json_of kp_observed),
            (''kp-index-3h'', json_of kp_3h),
            (''kp-index-6h'', json_of kp_6h),
            (''bz'', json_of bz),
            (''bt'', json_of bt),
            (''aurora-indicator'', JNum (calculate_aurora_indicator aurora_point clouds)),
            (''aurora-traffic-light'',
             JStr (calculate_traffic_light (calculate_aurora_indicator aurora_point clouds)))]"
    and bf0:
    "badge_files (main sf w a) =
       (if arg_badges a
        then write_badges (calculate_traffic_light (calculate_aurora_indicator aurora_point clouds))
               aurora_point clouds kp_observed bz bt
        else [])"
    and "notification (main sf w a) =
       Some (send_pushover_notification (os_environ w) (datetime_now w) (pushover_response w)
               (arg_location a) (calculate_aurora_indicator aurora_point clouds) aurora_point
               clouds (calculate_traffic_light (calculate_aurora_indicator aurora_point clouds))
               (arg_notify_start a) (arg_notify_end a))"
    by (rule main_completed)
  have out: "map_of out ''aurora-indicator''
            = Some (JNum (calculate_aurora_indicator aurora_point clouds))"
      "map_of out ''aurora-traffic-light''
            = Some (JStr (calculate_traffic_light (calculate_aurora_indicator aurora_point clouds)))"
    by (simp_all add: out_eq)
  from h bf0 have bf: "badge_files (main sf w a) =
       write_badges (calculate_traffic_light (calculate_aurora_indicator aurora_point clouds))
         aurora_point clouds kp_observed bz bt"
    by simp
  let ?s = "calculate_aurora_indicator aurora_point clouds"
  let ?b = "get_recommendation_badge (calculate_traffic_light ?s)"
  have b: "map_of (badge_files (main sf w a)) ''recommendation'' = Some ?b"
    by (simp add: bf write_badges_def)
  have lo: "?s < 10 \<longrightarrow>
              calculate_traffic_light ?s = ''black'' \<and> color ?b = ''gray''
              \<and> message ?b = Text ''Definitely not''"
    by (intro impI recommendation_bottom)
  have hi: "10 \<le> ?s \<longrightarrow>
              color ?b = calculate_traffic_light ?s
              \<and> (calculate_traffic_light ?s = ''red'' \<or> calculate_traffic_light ?s = ''yellow''
                   \<or> calculate_traffic_light ?s = ''green'')"
    by (intro impI recommendation_upper)
  show "\<exists>out s b.
        output_file (main sf w a) = Some out
        \<and> map_of out ''aurora-indicator'' = Some (JNum s)
        \<and> map_of out ''aurora-traffic-light'' = Some (JStr (calculate_traffic_light s))
        \<and> map_of (badge_files (main sf w a)) ''recommendation'' = Some b
        \<and> (s < 10 \<longrightarrow>
              calculate_traffic_light s = ''black'' \<and> color b = ''gray''
              \<and> message b = Text ''Definitely not'')
        \<and> (10 \<le> s \<longrightarrow>
              color b = calculate_traffic_light s
              \<and> (calculate_traffic_light s = ''red'' \<or> calculate_traffic_light s = ''yellow''
                   \<or> calculate_traffic_light s = ''green''))"
    using o out b lo hi by (intro exI [of _ out] exI [of _ ?s] exI [of _ ?b] conjI)
qed

theorem snapshot_black_badge_gray_witness:
  "arg_badges example_args
   \<and> map_of (the (output_file (main (\<lambda>s. None) (example_world\<lparr>ovation_response := Raises URLError\<rparr>)
        example_args))) ''aurora-traffic-light'' = Some (JStr ''black'')
   \<and> map_of (badge_files (main (\<lambda>s. None) (example_world\<lparr>ovation_response := Raises URLError\<rparr>)
        example_args)) ''recommendation''
       = Some \<lparr>schemaVersion = 1, label = ''Current Status'', message = Text ''Definitely not'',
                color = ''gray''\<rparr>
   \<and> map_of (the (output_file (main (\<lambda>s. None) example_world example_args)))
        ''aurora-traffic-light'' = Some (JStr ''yellow'')
   \<and> map_of (badge_files (main (\<lambda>s. None) example_world example_args)) ''recommendation''
       = Some \<lparr>schemaVersion = 1, label = ''Current Status'', message = Text ''Worth checking'',
                color = ''yellow''\<rparr>"
proof -
  have a: "arg_badges example_args"
    by (simp add: example_args_def)
  have o: "output_file (main (\<lambda>s. None) (example_world\<lparr>ovation_response := Raises URLError\<rparr>)
               example_args) \<noteq> None"
    by (simp add: ex_main_no_aurora)
  have evaluated:
    "map_of (the (output_file (main (\<lambda>s. None) (example_world\<lparr>ovation_response := Raises URLError\<rparr>)
        example_args))) ''aurora-traffic-light'' = Some (JStr ''black'')
     \<and> map_of (badge_files (main (\<lambda>s. None) (example_world\<lparr>ovation_response := Raises URLError\<rparr>)
        example_args)) ''recommendation''
       = Some \<lparr>schemaVersion = 1, label = ''Current Status'', message = Text ''Definitely not'',
                color = ''gray''\<rparr>
     \<and> map_of (the (output_file (main (\<lambda>s. None) example_world example_args)))
        ''aurora-traffic-light'' = Some (JStr ''yellow'')
     \<and> map_of (badge_files (main (\<lambda>s. None) example_world example_args)) ''recommendation''
       = Some \<lparr>schemaVersion = 1, label = ''Current Status'', message = Text ''Worth checking'',
                color = ''yellow''\<rparr>"
    by (simp add: ex_main ex_main_no_aurora write_badges_def get_recommendation_badge_def
          generate_badge_def messages_def)
  note snapshot_black_badge_gray [of "\<lambda>s. None" "example_world\<lparr>ovation_response := Raises URLError\<rparr>" example_args,
           THEN mp, OF conjI, OF o a]
  then show ?thesis
    using a evaluated by - (rule conjI)
qed

lemma sent_request:
  assumes "q \<in> set (sent (send_pushover_notification environ now post location_name indicator
              aurora_prob clouds traffic_light window_start window_end))"
  shows "(traffic_light = ''yellow'' \<or> traffic_light = ''red'')
         \<and> prob_str q = (case aurora_prob of Some p \<Rightarrow> Pct0 p | None \<Rightarrow> Text ''N/A'')
         \<and> clouds_str q = (case clouds of Some c \<Rightarrow> Pct0 c | None \<Rightarrow> Text ''N/A'')"
  using assms
  by (auto simp: send_pushover_notification_def skip_with_def split: if_splits)

lemma absent_probability_black:
  "calculate_traffic_light (calculate_aurora_indicator None clouds) = ''black''"
  by (simp add: calculate_aurora_indicator_def calculate_traffic_light_def)

text \<open>
  Claim C9.  In a run of \<^verbatim>\<open>main\<close>, a notification request that is sent carries a
  rendered probability, which is the snapshot's \<open>aurora-probability\<close>, never the
  \<open>N/A\<close> fallback: an absent probability gives the indicator 0, hence the traffic
  light \<open>black\<close>, for which nothing is sent.  The \<open>N/A\<close> fallback of the cloud
  coverage is reached by the run in which the cloud forecast cannot be fetched.
\<close>

theorem notification_has_probability:
  "(notification (main sf w a) = Some n \<and> q \<in> set (sent n)
      \<longrightarrow> (\<exists>p. map_of (the (output_file (main sf w a))) ''aurora-probability'' = Some (JNum p)
                \<and> prob_str q = Pct0 p)
          \<and> prob_str q \<noteq> Text ''N/A'')
   \<and> calculate_traffic_light (calculate_aurora_indicator None clouds) = ''black''
   \<and> sent (send_pushover_notification environ now post location_name indicator aurora_prob
         clouds ''black'' window_start window_end) = []
   \<and> (\<exists>n q. notification (main sf (example_world\<lparr>cloud_response := Raises URLError\<rparr>)
                      example_args) = Some n
             \<and> sent n = [q] \<and> clouds_str q = Text ''N/A'')"
proof (intro conjI impI)
  assume h: "notification (main sf w a) = Some n \<and> q \<in> set (sent n)"
  then obtain out where o: "output_file (main sf w a) = Some out"
    by (auto elim: main_notified)
  from o obtain cl ap where
    ap: "map_of out ''aurora-probability'' = Some (json_of ap)"
    and n: "notification (main sf w a) =
       Some (send_pushover_notification (os_environ w) (datetime_now w) (pushover_response w)
               (arg_location a) (calculate_aurora_indicator ap cl) ap
               cl (calculate_traffic_light (calculate_aurora_indicator ap cl))
               (arg_notify_start a) (arg_notify_end a))"
    by (auto elim!: main_completed)
  from h n have "q \<in> set (sent (send_pushover_notification (os_environ w) (datetime_now w)
               (pushover_response w) (arg_location a) (calculate_aurora_indicator ap cl) ap
               cl (calculate_traffic_light (calculate_aurora_indicator ap cl))
               (arg_notify_start a) (arg_notify_end a)))"
    by simp
  from sent_request [OF this]
  have tl: "calculate_traffic_light (calculate_aurora_indicator ap cl) = ''yellow''
            \<or> calculate_traffic_light (calculate_aurora_indicator ap cl) = ''red''"
    and ps: "prob_str q = (case ap of Some p \<Rightarrow> Pct0 p | None \<Rightarrow> Text ''N/A'')"
    by (blast, blast)
  from tl absent_probability_black [of cl] obtain p where p: "ap = Some p"
    by (cases ap) auto
  with ps ap o
  show "\<exists>p. map_of (the (output_file (main sf w a))) ''aurora-probability'' = Some (JNum p)
                \<and> prob_str q = Pct0 p"
    by (simp add: json_of_def)
  from p ps show "prob_str q \<noteq> Text ''N/A''" by simp
next
  show "calculate_traffic_light (calculate_aurora_indicator None clouds) = ''black''"
    by (rule absent_probability_black)
  show "sent (send_pushover_notification environ now post location_name indicator aurora_prob
         clouds ''black'' window_start window_end) = []"
    by (simp add: send_pushover_notification_def skip_with_def)
  show "\<exists>n q. notification (main sf (example_world\<lparr>cloud_response := Raises URLError\<rparr>)
                      example_args) = Some n
             \<and> sent n = [q] \<and> clouds_str q = Text ''N/A''"
    by (simp add: ex_main_no_clouds)
qed

theorem notification_has_probability_witness:
  "notification (main (\<lambda>s. None) example_world example_args)
     = Some \<lparr>skipped = None,
              sent = [\<lparr>token = ''token'', user = ''user'', title_location = ''Oulu'',
                       title_indicator = 40, prob_str = Pct0 40, clouds_str = Pct0 20\<rparr>],
              returned = Inr True\<rparr>
   \<and> map_of (the (output_file (main (\<lambda>s. None) example_world example_args)))
        ''aurora-probability'' = Some (JNum 40)
   \<and> prob_str \<lparr>token = ''token'', user = ''user'', title_location = ''Oulu'',
                  title_indicator = 40, prob_str = Pct0 40, clouds_str = Pct0 20\<rparr>
       \<noteq> Text ''N/A''"
  using notification_has_probability [of "\<lambda>s. None" example_world example_args
              "\<lparr>skipped = None,
                sent = [\<lparr>token = ''token'', user = ''user'', title_location = ''Oulu'',
                         title_indicator = 40, prob_str = Pct0 40, clouds_str = Pct0 20\<rparr>],
                returned = Inr True\<rparr>"
              "\<lparr>token = ''token'', user = ''user'', title_location = ''Oulu'',
                 title_indicator = 40, prob_str = Pct0 40, clouds_str = Pct0 20\<rparr>"]
  by (simp add: ex_main)

end
